theory Spec2Isabelle
  imports Complex_Main "HOL-Library.AList" "HOL-Library.Sublist"
begin

text \<open>
  The plan feature table, the project search and the investment ledger of the investment
  backend, embedded as functions on an explicit store, and the properties of them that the
  specification states. The first part holds the definitions, in the order of the source
  files; the second part holds the results.
\<close>

section \<open>Errors and replies\<close>

text \<open>
  A template literal such as \<^verbatim>\<open>`Minimum investment amount is $${project.minInvestment}`\<close>
  is kept as its fragments: the literal text and the interpolated numbers. JavaScript numbers
  are modelled as exact rationals; the rounding of IEEE doubles is outside this development.
\<close>

datatype frag = Lit string | Num rat

type_synonym message = "frag list"

text \<open>
  \<open>AppError m c\<close> is \<^verbatim>\<open>new AppError(m, c)\<close> of middlewares/errorHandler.ts.
  \<open>ZodError\<close> is thrown by a schema's \<^verbatim>\<open>parse\<close>, \<open>ValidationError\<close> by Mongoose when a
  document violates its schema on \<^verbatim>\<open>create\<close> or \<^verbatim>\<open>save\<close>, \<open>MongoError\<close> by the
  database driver, and \<open>TypeError\<close> by the JavaScript runtime when a property of
  \<^verbatim>\<open>undefined\<close> is read.
\<close>

datatype error =
    AppError message nat
  | ZodError
  | ValidationError
  | MongoError
  | TypeError

text \<open>
  What an Express handler does with a request: it answers with a status and a payload
  (\<^verbatim>\<open>res.status(c).json(...)\<close>), it answers with a status and a failure message, or it hands
  an exception to \<^verbatim>\<open>next\<close>, from where \<^verbatim>\<open>errorHandler\<close> answers.
\<close>

datatype 'a reply = Reply nat 'a | Refuse nat message | Next error

fun errorHandler :: "error \<Rightarrow> nat \<times> message" where
  "errorHandler ZodError = (400, [Lit ''Validation error''])"
| "errorHandler ValidationError = (400, [Lit ''Validation error''])"
| "errorHandler (AppError m c) = ((if c = 0 then 500 else c), m)"
| "errorHandler MongoError = (500, [Lit ''Internal server error''])"
| "errorHandler TypeError = (500, [Lit ''Internal server error''])"

section \<open>Plan feature configuration (config/planFeatures.ts)\<close>

record SearchFilters =
  basicFilters :: bool
  roiRange :: bool
  amountRange :: bool
  multipleCategories :: bool
  advancedSort :: bool
  durationFilter :: bool

record Limits =
  projectsPerMonth :: int
  simulationsPerMonth :: int
  savedSearches :: int

record PlanFeatures =
  name :: string
  searchFilters :: SearchFilters
  limits :: Limits

text \<open>\<^verbatim>\<open>keyof PlanFeatures['searchFilters']\<close>, and the property read \<^verbatim>\<open>searchFilters[feature]\<close>.\<close>

datatype Feature =
  BasicFilters | RoiRange | AmountRange | MultipleCategories | AdvancedSort | DurationFilter

fun flag :: "SearchFilters \<Rightarrow> Feature \<Rightarrow> bool" where
  "flag sf BasicFilters = basicFilters sf"
| "flag sf RoiRange = roiRange sf"
| "flag sf AmountRange = amountRange sf"
| "flag sf MultipleCategories = multipleCategories sf"
| "flag sf AdvancedSort = advancedSort sf"
| "flag sf DurationFilter = durationFilter sf"

definition free_plan :: PlanFeatures where
  "free_plan = \<lparr> name = ''Free'',
     searchFilters = \<lparr> basicFilters = True, roiRange = False, amountRange = False,
       multipleCategories = False, advancedSort = False, durationFilter = False \<rparr>,
     limits = \<lparr> projectsPerMonth = 10, simulationsPerMonth = 5, savedSearches = 0 \<rparr> \<rparr>"

definition basic_plan :: PlanFeatures where
  "basic_plan = \<lparr> name = ''Basic'',
     searchFilters = \<lparr> basicFilters = True, roiRange = True, amountRange = False,
       multipleCategories = False, advancedSort = False, durationFilter = False \<rparr>,
     limits = \<lparr> projectsPerMonth = 50, simulationsPerMonth = 20, savedSearches = 3 \<rparr> \<rparr>"

definition plus_plan :: PlanFeatures where
  "plus_plan = \<lparr> name = ''Plus'',
     searchFilters = \<lparr> basicFilters = True, roiRange = True, amountRange = True,
       multipleCategories = True, advancedSort = False, durationFilter = True \<rparr>,
     limits = \<lparr> projectsPerMonth = 200, simulationsPerMonth = 100, savedSearches = 10 \<rparr> \<rparr>"

definition premium_plan :: PlanFeatures where
  "premium_plan = \<lparr> name = ''Premium'',
     searchFilters = \<lparr> basicFilters = True, roiRange = True, amountRange = True,
       multipleCategories = True, advancedSort = True, durationFilter = True \<rparr>,
     limits = \<lparr> projectsPerMonth = - 1, simulationsPerMonth = - 1, savedSearches = - 1 \<rparr> \<rparr>"

text \<open>The own properties of the object literal \<^verbatim>\<open>PLAN_FEATURES\<close>, in source order.\<close>

definition PLAN_FEATURES :: "(string \<times> PlanFeatures) list" where
  "PLAN_FEATURES =
     [(''free'', free_plan), (''basic'', basic_plan), (''plus'', plus_plan),
      (''premium'', premium_plan)]"

text \<open>
  \<^verbatim>\<open>PLAN_FEATURES\<close> is an object literal, so its prototype is \<^verbatim>\<open>Object.prototype\<close>, and
  the index expression \<^verbatim>\<open>PLAN_FEATURES[planKey]\<close> reads an inherited property when the
  object has no own property of that name. These are the property names of
  \<^verbatim>\<open>Object.prototype\<close>; each of their values is a function or an object, hence truthy, and
  none has a \<^verbatim>\<open>searchFilters\<close> property.
\<close>

definition Object_prototype :: "string list" where
  "Object_prototype =
     [''constructor'', ''hasOwnProperty'', ''isPrototypeOf'', ''propertyIsEnumerable'',
      ''toLocaleString'', ''toString'', ''valueOf'', ''__proto__'',
      ''__defineGetter__'', ''__defineSetter__'', ''__lookupGetter__'', ''__lookupSetter__'']"

datatype PlanLookup = PlanObject PlanFeatures | PrototypeMember string | Undefined

definition index_PLAN_FEATURES :: "string \<Rightarrow> PlanLookup" where
  "index_PLAN_FEATURES planKey =
     (case map_of PLAN_FEATURES planKey of
        Some plan \<Rightarrow> PlanObject plan
      | None \<Rightarrow> if planKey \<in> set Object_prototype then PrototypeMember planKey else Undefined)"

text \<open>\<^verbatim>\<open>PLAN_FEATURES[planKey] || PLAN_FEATURES.free\<close>: only \<^verbatim>\<open>undefined\<close> is falsy here.\<close>

definition getPlanFeatures :: "string \<Rightarrow> PlanLookup" where
  "getPlanFeatures planKey =
     (case index_PLAN_FEATURES planKey of
        Undefined \<Rightarrow> PlanObject free_plan
      | v \<Rightarrow> v)"

text \<open>
  \<^verbatim>\<open>plan.searchFilters[feature]\<close> throws a TypeError when \<^verbatim>\<open>plan.searchFilters\<close> is
  \<^verbatim>\<open>undefined\<close>, which is the case for an inherited member.
\<close>

definition hasFeatureAccess :: "string \<Rightarrow> Feature \<Rightarrow> error + bool" where
  "hasFeatureAccess planKey feature =
     (case (case index_PLAN_FEATURES planKey of
              Undefined \<Rightarrow> PlanObject free_plan
            | v \<Rightarrow> v) of
        PlanObject plan \<Rightarrow> Inr (flag (searchFilters plan) feature)
      | _ \<Rightarrow> Inl TypeError)"

text \<open>The loop of \<^verbatim>\<open>getMinimumPlanForFeature\<close> over a list of plan keys.\<close>

fun first_plan_with :: "Feature \<Rightarrow> string list \<Rightarrow> error + string" where
  "first_plan_with feature [] = Inr ''premium''"
| "first_plan_with feature (planKey # plans) =
     (case map_of PLAN_FEATURES planKey of
        None \<Rightarrow> Inl TypeError
      | Some plan \<Rightarrow>
          if flag (searchFilters plan) feature then Inr planKey
          else first_plan_with feature plans)"

definition getMinimumPlanForFeature :: "Feature \<Rightarrow> error + string" where
  "getMinimumPlanForFeature feature =
     first_plan_with feature [''free'', ''basic'', ''plus'', ''premium'']"

section \<open>Documents and collections (models/Project, models/Investment, models/Payment)\<close>

text \<open>
  The status fields are string enumerations; \<^verbatim>\<open>'completed'\<close> is a value of both, so the
  constructors carry the collection's initial.
\<close>

datatype ProjectStatus = P_active | P_completed | P_closed

datatype InvestmentStatus = I_pending | I_completed | I_failed | I_refunded

text \<open>Dates are milliseconds since the epoch, as \<^verbatim>\<open>Date.getTime()\<close> gives them.\<close>

record Project =
  title :: string
  description :: string
  category :: string
  minInvestment :: rat
  roiPercent :: rat
  targetAmount :: rat
  fundedAmount :: rat
  totalInvestors :: rat
  durationMonths :: rat
  status :: ProjectStatus
  isPremium :: bool
  createdAt :: int

text \<open>
  \<open>inv_status\<close> is the field \<^verbatim>\<open>status\<close> of an investment. \<open>expectedReturnDate\<close> keeps the
  date and the number of months that \<^verbatim>\<open>setMonth\<close> adds to it; the calendar arithmetic of
  \<^verbatim>\<open>Date\<close> is not unfolded.
\<close>

record Investment =
  userId :: string
  projectId :: string
  amount :: rat
  paymentMethod :: string
  inv_status :: InvestmentStatus
  investmentDate :: int
  expectedReturn :: rat
  expectedReturnDate :: "(int \<times> rat) option"
  refundReason :: "string option"
  refundDate :: "int option"

record Payment =
  pay_userId :: string
  subscriptionId :: "string option"
  transactionId :: message
  pay_amount :: rat
  currency :: string
  pay_status :: string
  pay_method :: string

text \<open>
  The database: the project collection keyed by id, in insertion order; the investment
  collection, where the id of a document is its position; the payment collection.
\<close>

record Store =
  Project_docs :: "(string \<times> Project) list"
  Investment_docs :: "Investment list"
  Payment_docs :: "Payment list"

text \<open>
  The numeric validators of \<^verbatim>\<open>ProjectSchema\<close> (\<^verbatim>\<open>min\<close>, \<^verbatim>\<open>max\<close>). Mongoose runs a
  schema's validators on \<^verbatim>\<open>create\<close> and on \<^verbatim>\<open>save\<close> and rejects the write with a
  ValidationError when one fails. The length validators of the text fields are left out: no
  operation below writes a text field of a project. The results that speak of a successful
  write take the stored document to satisfy its schema, as every document written through
  \<^verbatim>\<open>create\<close> or \<^verbatim>\<open>save\<close> does.
\<close>

definition Project_schema :: "Project \<Rightarrow> bool" where
  "Project_schema p \<longleftrightarrow>
     0 \<le> minInvestment p \<and> 0 \<le> roiPercent p \<and> roiPercent p \<le> 1000 \<and>
     0 \<le> targetAmount p \<and> 0 \<le> fundedAmount p \<and> 0 \<le> totalInvestors p \<and>
     1 \<le> durationMonths p \<and> durationMonths p \<le> 240"

text \<open>The validators of \<^verbatim>\<open>investmentSchema\<close> on the fields the operations below write.\<close>

definition Investment_schema :: "Investment \<Rightarrow> bool" where
  "Investment_schema i \<longleftrightarrow>
     0 \<le> amount i \<and> 0 \<le> expectedReturn i \<and>
     paymentMethod i \<in> set [''stripe'', ''paypal'', ''bank_transfer'', ''wallet''] \<and>
     (case refundReason i of None \<Rightarrow> True | Some r \<Rightarrow> length r \<le> 500)"

text \<open>
  The validators of \<^verbatim>\<open>PaymentSchema\<close>: \<^verbatim>\<open>subscriptionId\<close>, \<^verbatim>\<open>transactionId\<close> and
  \<^verbatim>\<open>method\<close> are required, \<^verbatim>\<open>status\<close> is one of four strings, \<^verbatim>\<open>amount\<close> is at least 0.
\<close>

definition Payment_schema :: "Payment \<Rightarrow> bool" where
  "Payment_schema d \<longleftrightarrow>
     subscriptionId d \<noteq> None \<and> transactionId d \<noteq> [] \<and> 0 \<le> pay_amount d \<and>
     pay_status d \<in> set [''pending'', ''succeeded'', ''failed'', ''refunded''] \<and>
     pay_method d \<noteq> []"

definition Project_findById :: "Store \<Rightarrow> string \<Rightarrow> Project option" where
  "Project_findById st pid = map_of (Project_docs st) pid"

definition Project_save :: "string \<Rightarrow> Project \<Rightarrow> Store \<Rightarrow> error + Store" where
  "Project_save pid p st =
     (if Project_schema p
      then Inr (st\<lparr>Project_docs := AList.update pid p (Project_docs st)\<rparr>)
      else Inl ValidationError)"


text \<open>\<^verbatim>\<open>Investment.create\<close> returns the new document's id with the store.\<close>

definition Investment_create :: "Investment \<Rightarrow> Store \<Rightarrow> error + nat \<times> Store" where
  "Investment_create i st =
     (if Investment_schema i
      then Inr (length (Investment_docs st),
                st\<lparr>Investment_docs := Investment_docs st @ [i]\<rparr>)
      else Inl ValidationError)"


definition Payment_create :: "Payment \<Rightarrow> Store \<Rightarrow> error + Store" where
  "Payment_create d st =
     (if Payment_schema d
      then Inr (st\<lparr>Payment_docs := Payment_docs st @ [d]\<rparr>)
      else Inl ValidationError)"

section \<open>The investment ledger (InvestmentController)\<close>

text \<open>
  The request body of \<^verbatim>\<open>POST /api/investments\<close>; \<open>None\<close> is an absent field. A field is
  falsy when it is absent, the empty string, or the number 0.
\<close>

record InvestBody =
  body_projectId :: "string option"
  body_amount :: "rat option"
  body_paymentMethod :: "string option"

fun falsy_str :: "string option \<Rightarrow> bool" where
  "falsy_str None = True"
| "falsy_str (Some s) = (s = [])"

fun falsy_num :: "rat option \<Rightarrow> bool" where
  "falsy_num None = True"
| "falsy_num (Some n) = (n = 0)"

text \<open>\<^verbatim>\<open>x || d\<close> on a number \<open>x\<close>.\<close>

definition or_default :: "rat \<Rightarrow> rat \<Rightarrow> rat" where
  "or_default x d = (if x = 0 then d else x)"


definition required_msg :: message where
  "required_msg = [Lit ''Project ID, amount, and payment method are required'']"

text \<open>
  \<^verbatim>\<open>createInvestment\<close>, with the clock reading \<open>now\<close> and the caller's id. The sending of the
  confirmation e-mail and of the notification follows the payment record; their failures
  are caught and logged, and they write nothing to the three collections.
\<close>

definition createInvestment ::
  "int \<Rightarrow> string \<Rightarrow> InvestBody \<Rightarrow> Store \<Rightarrow> Investment reply \<times> Store" where
  "createInvestment now uid body st =
     (case (body_projectId body, body_amount body, body_paymentMethod body) of
        (Some pid, Some amt, Some pm) \<Rightarrow>
          if pid = [] \<or> amt = 0 \<or> pm = [] then (Next (AppError required_msg 400), st)
          else
            (case Project_findById st pid of
               None \<Rightarrow> (Next (AppError [Lit ''Project not found''] 404), st)
             | Some project \<Rightarrow>
                 if status project \<noteq> P_active then
                   (Next (AppError
                      [Lit ''This project is not accepting investments at the moment''] 400), st)
                 else if amt < minInvestment project then
                   (Next (AppError
                      [Lit ''Minimum investment amount is $'', Num (minInvestment project)] 400),
                    st)
                 else if fundedAmount project \<ge> targetAmount project then
                   (Next (AppError [Lit ''This project is fully funded''] 400), st)
                 else if fundedAmount project + amt > targetAmount project then
                   (let remaining = targetAmount project - fundedAmount project in
                    (Next (AppError
                       [Lit ''Investment amount exceeds remaining target. Maximum you can invest: $'',
                        Num remaining] 400), st))
                 else
                   (let expRet = amt + (amt * roiPercent project) / 100;
                        expDate = (if durationMonths project \<noteq> 0
                                   then Some (now, durationMonths project) else None);
                        investment = \<lparr> userId = uid, projectId = pid, amount = amt,
                          paymentMethod = pm, inv_status = I_completed, investmentDate = now,
                          expectedReturn = expRet, expectedReturnDate = expDate,
                          refundReason = None, refundDate = None \<rparr>
                    in case Investment_create investment st of
                         Inl e \<Rightarrow> (Next e, st)
                       | Inr (iid, st1) \<Rightarrow>
                           (let p1 = project\<lparr>fundedAmount := fundedAmount project + amt,
                                  totalInvestors := or_default (totalInvestors project) 0 + 1\<rparr>;
                                p2 = (if fundedAmount p1 \<ge> targetAmount p1
                                      then p1\<lparr>status := P_completed\<rparr> else p1)
                            in case Project_save pid p2 st1 of
                                 Inl e \<Rightarrow> (Next e, st1)
                               | Inr st2 \<Rightarrow>
                                   (case Payment_create
                                      \<lparr> pay_userId = uid, subscriptionId = None,
                                        transactionId = [Lit ''INV-'', Num (of_nat iid)],
                                        pay_amount = amt, currency = ''USD'',
                                        pay_status = ''completed'', pay_method = pm \<rparr> st2 of
                                      Inl e \<Rightarrow> (Next e, st2)
                                    | Inr st3 \<Rightarrow> (Reply 201 investment, st3)))))
      | _ \<Rightarrow> (Next (AppError required_msg 400), st))"










section \<open>A project and a store for the examples\<close>

text \<open>
  A project with 100 left to its target of 1000, a minimum investment of 100 and a return
  of 20 percent, in a store with no investment yet.
\<close>

definition example_project :: Project where
  "example_project = \<lparr> title = ''Solar farm'', description = ''Panels on a warehouse roof'',
     category = ''energy'', minInvestment = 100, roiPercent = 20, targetAmount = 1000,
     fundedAmount = 900, totalInvestors = 3, durationMonths = 12, status = P_active,
     isPremium = False, createdAt = 0 \<rparr>"

definition example_store :: Store where
  "example_store = \<lparr> Project_docs = [(''p1'', example_project)], Investment_docs = [],
     Payment_docs = [] \<rparr>"

definition invest_body :: "string \<Rightarrow> rat \<Rightarrow> string \<Rightarrow> InvestBody" where
  "invest_body pid amt pm =
     \<lparr> body_projectId = Some pid, body_amount = Some amt, body_paymentMethod = Some pm \<rparr>"







section \<open>Queries on the project collection\<close>

text \<open>
  The filter object that the service functions build, one field per key they may set.
  \<open>PremiumNot True\<close> is \<^verbatim>\<open>{ isPremium: { $ne: true } }\<close>; \<open>CategoryIn\<close> is \<^verbatim>\<open>{ $in: ... }\<close>;
  a range holds the bounds \<^verbatim>\<open>$gte\<close> and \<^verbatim>\<open>$lte\<close> that were set; \<open>f_or\<close> is the pattern of
  the two \<^verbatim>\<open>$regex\<close> clauses on the title and the description.
\<close>

datatype PremiumCond = PremiumIs bool | PremiumNot bool

datatype CategoryCond = CategoryIs string | CategoryIn "string list"

record Range =
  gte :: "rat option"
  lte :: "rat option"

record Filter =
  f_isPremium :: "PremiumCond option"
  f_category :: "CategoryCond option"
  f_status :: "ProjectStatus option"
  f_roiPercent :: "Range option"
  f_targetAmount :: "Range option"
  f_durationMonths :: "Range option"
  f_or :: "string option"

definition no_filter :: Filter where
  "no_filter = \<lparr> f_isPremium = None, f_category = None, f_status = None,
     f_roiPercent = None, f_targetAmount = None, f_durationMonths = None, f_or = None \<rparr>"

fun in_range :: "Range option \<Rightarrow> rat \<Rightarrow> bool" where
  "in_range None x = True"
| "in_range (Some r) x =
     ((case gte r of None \<Rightarrow> True | Some lo \<Rightarrow> lo \<le> x) \<and>
      (case lte r of None \<Rightarrow> True | Some hi \<Rightarrow> x \<le> hi))"

text \<open>
  Whether a document matches a filter. The first argument is the database's
  case-insensitive regular-expression match, pattern first; it is a parameter of the
  functions below.
\<close>

definition matches :: "(string \<Rightarrow> string \<Rightarrow> bool) \<Rightarrow> Filter \<Rightarrow> Project \<Rightarrow> bool" where
  "matches rx f p \<longleftrightarrow>
     (case f_isPremium f of
        None \<Rightarrow> True
      | Some (PremiumIs b) \<Rightarrow> isPremium p = b
      | Some (PremiumNot b) \<Rightarrow> isPremium p \<noteq> b) \<and>
     (case f_category f of
        None \<Rightarrow> True
      | Some (CategoryIs c) \<Rightarrow> category p = c
      | Some (CategoryIn cs) \<Rightarrow> category p \<in> set cs) \<and>
     (case f_status f of None \<Rightarrow> True | Some s \<Rightarrow> status p = s) \<and>
     in_range (f_roiPercent f) (roiPercent p) \<and>
     in_range (f_targetAmount f) (targetAmount p) \<and>
     in_range (f_durationMonths f) (durationMonths p) \<and>
     (case f_or f of None \<Rightarrow> True | Some s \<Rightarrow> rx s (title p) \<or> rx s (description p))"

text \<open>
  The fields a request may sort by. \<^verbatim>\<open>progress\<close> is not a stored field: a sort on it would
  compare missing values, all equal.
\<close>

datatype SortField =
  S_createdAt | S_roiPercent | S_targetAmount | S_fundedAmount | S_progress | S_durationMonths

datatype SortOrder = Asc | Desc

fun sort_value :: "SortField \<Rightarrow> Project \<Rightarrow> rat" where
  "sort_value S_createdAt p = of_int (createdAt p)"
| "sort_value S_roiPercent p = roiPercent p"
| "sort_value S_targetAmount p = targetAmount p"
| "sort_value S_fundedAmount p = fundedAmount p"
| "sort_value S_progress p = 0"
| "sort_value S_durationMonths p = durationMonths p"

text \<open>
  \<^verbatim>\<open>Project.find(filter).sort(sortObject).skip(skip).limit(limit)\<close> on the documents of the
  collection. The sort object has one key with the direction 1 or -1; documents with equal
  keys keep their order. The database rejects a negative skip, and a limit of 0 is no limit.
\<close>

definition Project_find ::
  "(string \<Rightarrow> string \<Rightarrow> bool) \<Rightarrow> Project list \<Rightarrow> Filter \<Rightarrow> SortField \<times> int \<Rightarrow> int \<Rightarrow> int
   \<Rightarrow> error + Project list" where
  "Project_find rx docs f sortObject skip lmt =
     (if skip < 0 then Inl MongoError
      else
        (let sorted_docs = sort_key (\<lambda>p. of_int (snd sortObject) * sort_value (fst sortObject) p)
                             (filter (matches rx f) docs);
             rest = drop (nat skip) sorted_docs
         in Inr (if lmt = 0 then rest else take (nat lmt) rest)))"

definition Project_countDocuments ::
  "(string \<Rightarrow> string \<Rightarrow> bool) \<Rightarrow> Project list \<Rightarrow> Filter \<Rightarrow> int" where
  "Project_countDocuments rx docs f = int (length (filter (matches rx f) docs))"

text \<open>
  \<^verbatim>\<open>Math.ceil(total / limit)\<close>; with a limit of 0 the quotient is not a finite number, and the
  field is \<open>None\<close>.
\<close>

record Pagination =
  pg_page :: int
  pg_limit :: int
  pg_total :: int
  pg_totalPages :: "int option"

definition pagination_of :: "int \<Rightarrow> int \<Rightarrow> int \<Rightarrow> Pagination" where
  "pagination_of pg lmt n =
     \<lparr> pg_page = pg, pg_limit = lmt, pg_total = n,
       pg_totalPages = (if lmt = 0 then None
                        else Some (ceiling (of_int n / (of_int lmt :: rat)))) \<rparr>"

record ListResult =
  projects :: "Project list"
  pagination :: Pagination

record SearchResult = ListResult +
  planFeatures :: PlanLookup

text \<open>Sequencing of calls that may throw.\<close>

fun bind_res :: "error + 'a \<Rightarrow> ('a \<Rightarrow> error + 'b) \<Rightarrow> error + 'b" where
  "bind_res (Inl e) k = Inl e"
| "bind_res (Inr x) k = k x"

section \<open>Request validation (utils/projectValidation.ts)\<close>

text \<open>
  The query string of \<^verbatim>\<open>GET /api/projects\<close> and \<^verbatim>\<open>GET /api/projects/premium\<close>: every
  parameter is a string or absent.
\<close>

record RawQuery =
  rq_page :: "string option"
  rq_limit :: "string option"
  rq_category :: "string option"
  rq_status :: "string option"
  rq_minROI :: "string option"
  rq_maxROI :: "string option"
  rq_search :: "string option"

record ProjectQuery =
  pq_page :: int
  pq_limit :: int
  pq_category :: "string option"
  pq_status :: "ProjectStatus option"
  pq_minROI :: "rat option"
  pq_maxROI :: "rat option"
  pq_search :: "string option"

text \<open>\<^verbatim>\<open>/^\d+$/\<close>, and \<^verbatim>\<open>Number\<close> on a string of digits.\<close>

definition all_digits :: "string \<Rightarrow> bool" where
  "all_digits s \<longleftrightarrow> s \<noteq> [] \<and> (\<forall>c \<in> set s. c \<in> set ''0123456789'')"

definition digits_value :: "string \<Rightarrow> nat" where
  "digits_value s = foldl (\<lambda>n c. 10 * n + (of_char c - 48)) 0 s"

text \<open>\<^verbatim>\<open>/^\d+(\.\d+)?$/\<close>, and \<^verbatim>\<open>Number\<close> on a string of that form.\<close>

definition is_decimal :: "string \<Rightarrow> bool" where
  "is_decimal s \<longleftrightarrow>
     all_digits (takeWhile (\<lambda>c. c \<noteq> CHR ''.'') s) \<and>
     (case dropWhile (\<lambda>c. c \<noteq> CHR ''.'') s of
        [] \<Rightarrow> True
      | _ # fr \<Rightarrow> all_digits fr)"

definition decimal_value :: "string \<Rightarrow> rat" where
  "decimal_value s =
     of_nat (digits_value (takeWhile (\<lambda>c. c \<noteq> CHR ''.'') s)) +
     (case dropWhile (\<lambda>c. c \<noteq> CHR ''.'') s of
        [] \<Rightarrow> 0
      | _ # fr \<Rightarrow> of_nat (digits_value fr) / 10 ^ length fr)"

fun parse_status :: "string \<Rightarrow> ProjectStatus option" where
  "parse_status s =
     (if s = ''active'' then Some P_active
      else if s = ''completed'' then Some P_completed
      else if s = ''closed'' then Some P_closed
      else None)"

text \<open>One optional parameter: absent, malformed, or a value.\<close>

fun optional :: "('a \<Rightarrow> bool) \<Rightarrow> ('a \<Rightarrow> 'b) \<Rightarrow> 'a option \<Rightarrow> error + 'b option" where
  "optional ok conv None = Inr None"
| "optional ok conv (Some x) = (if ok x then Inr (Some (conv x)) else Inl ZodError)"

fun with_default :: "'b \<Rightarrow> error + 'b option \<Rightarrow> error + 'b" where
  "with_default d (Inl e) = Inl e"
| "with_default d (Inr None) = Inr d"
| "with_default d (Inr (Some x)) = Inr x"

fun optional_status :: "string option \<Rightarrow> error + ProjectStatus option" where
  "optional_status None = Inr None"
| "optional_status (Some s) =
     (case parse_status s of None \<Rightarrow> Inl ZodError | Some v \<Rightarrow> Inr (Some v))"

definition projectQuerySchema_parse :: "RawQuery \<Rightarrow> error + ProjectQuery" where
  "projectQuerySchema_parse r =
     bind_res (with_default 1 (optional all_digits (\<lambda>s. int (digits_value s)) (rq_page r)))
       (\<lambda>pg.
     bind_res (with_default 10 (optional all_digits (\<lambda>s. int (digits_value s)) (rq_limit r)))
       (\<lambda>lmt.
     bind_res (optional_status (rq_status r)) (\<lambda>st.
     bind_res (optional is_decimal decimal_value (rq_minROI r)) (\<lambda>lo.
     bind_res (optional is_decimal decimal_value (rq_maxROI r)) (\<lambda>hi.
       Inr \<lparr> pq_page = pg, pq_limit = lmt, pq_category = rq_category r, pq_status = st,
             pq_minROI = lo, pq_maxROI = hi, pq_search = rq_search r \<rparr>)))))"

text \<open>
  The body of \<^verbatim>\<open>POST /api/projects/search\<close>: a JSON object whose fields have the types the
  schema names (numbers, strings, a list of strings) or are absent.
\<close>

record RawSearch =
  rs_page :: "rat option"
  rs_limit :: "rat option"
  rs_category :: "string option"
  rs_status :: "string option"
  rs_search :: "string option"
  rs_categories :: "string list option"
  rs_minROI :: "rat option"
  rs_maxROI :: "rat option"
  rs_minAmount :: "rat option"
  rs_maxAmount :: "rat option"
  rs_minDuration :: "rat option"
  rs_maxDuration :: "rat option"
  rs_sortBy :: "string option"
  rs_sortOrder :: "string option"

record AdvancedSearchInput =
  q_page :: int
  q_limit :: int
  q_category :: "string option"
  q_status :: "ProjectStatus option"
  q_search :: "string option"
  q_categories :: "string list option"
  q_minROI :: "rat option"
  q_maxROI :: "rat option"
  q_minAmount :: "rat option"
  q_maxAmount :: "rat option"
  q_minDuration :: "rat option"
  q_maxDuration :: "rat option"
  q_sortBy :: SortField
  q_sortOrder :: SortOrder

definition is_integer :: "rat \<Rightarrow> bool" where
  "is_integer x \<longleftrightarrow> of_int (floor x) = x"

fun parse_sortBy :: "string \<Rightarrow> SortField option" where
  "parse_sortBy s =
     (if s = ''createdAt'' then Some S_createdAt
      else if s = ''roiPercent'' then Some S_roiPercent
      else if s = ''targetAmount'' then Some S_targetAmount
      else if s = ''fundedAmount'' then Some S_fundedAmount
      else if s = ''progress'' then Some S_progress
      else if s = ''durationMonths'' then Some S_durationMonths
      else None)"

fun parse_sortOrder :: "string \<Rightarrow> SortOrder option" where
  "parse_sortOrder s =
     (if s = ''asc'' then Some Asc else if s = ''desc'' then Some Desc else None)"

fun enum_default :: "('a \<Rightarrow> 'b option) \<Rightarrow> 'b \<Rightarrow> 'a option \<Rightarrow> error + 'b" where
  "enum_default conv d None = Inr d"
| "enum_default conv d (Some s) = (case conv s of None \<Rightarrow> Inl ZodError | Some v \<Rightarrow> Inr v)"

definition advancedSearchSchema_parse :: "RawSearch \<Rightarrow> error + AdvancedSearchInput" where
  "advancedSearchSchema_parse r =
     bind_res (with_default 1
        (optional (\<lambda>x. is_integer x \<and> 1 \<le> x) floor (rs_page r))) (\<lambda>pg.
     bind_res (with_default 20
        (optional (\<lambda>x. is_integer x \<and> 1 \<le> x \<and> x \<le> 100) floor (rs_limit r))) (\<lambda>lmt.
     bind_res (optional_status (rs_status r)) (\<lambda>st.
     bind_res (optional (\<lambda>x. 0 \<le> x \<and> x \<le> 1000) (\<lambda>x. x) (rs_minROI r)) (\<lambda>minROI.
     bind_res (optional (\<lambda>x. 0 \<le> x \<and> x \<le> 1000) (\<lambda>x. x) (rs_maxROI r)) (\<lambda>maxROI.
     bind_res (optional (\<lambda>x. 0 \<le> x) (\<lambda>x. x) (rs_minAmount r)) (\<lambda>minAmount.
     bind_res (optional (\<lambda>x. 0 \<le> x) (\<lambda>x. x) (rs_maxAmount r)) (\<lambda>maxAmount.
     bind_res (optional (\<lambda>x. is_integer x \<and> 1 \<le> x) (\<lambda>x. x) (rs_minDuration r))
       (\<lambda>minDuration.
     bind_res (optional (\<lambda>x. is_integer x \<and> 1 \<le> x) (\<lambda>x. x) (rs_maxDuration r))
       (\<lambda>maxDuration.
     bind_res (enum_default parse_sortBy S_createdAt (rs_sortBy r)) (\<lambda>sortBy.
     bind_res (enum_default parse_sortOrder Desc (rs_sortOrder r)) (\<lambda>sortOrder.
       Inr \<lparr> q_page = pg, q_limit = lmt, q_category = rs_category r, q_status = st,
             q_search = rs_search r, q_categories = rs_categories r,
             q_minROI = minROI, q_maxROI = maxROI,
             q_minAmount = minAmount, q_maxAmount = maxAmount,
             q_minDuration = minDuration, q_maxDuration = maxDuration,
             q_sortBy = sortBy, q_sortOrder = sortOrder \<rparr>)))))))))))"

section \<open>Listing and searching (ProjectService, ProjectController)\<close>

text \<open>\<^verbatim>\<open>if (s)\<close> on an optional string: absent and empty are falsy.\<close>

fun truthy :: "string option \<Rightarrow> string option" where
  "truthy None = None"
| "truthy (Some s) = (if s = [] then None else Some s)"

text \<open>
  \<^verbatim>\<open>getAllProjects\<close> and \<^verbatim>\<open>getPremiumProjects\<close> build their filter from the query by the
  same statements, starting from a different object; \<open>query_filter\<close> is those statements.
\<close>

definition query_filter :: "Filter \<Rightarrow> ProjectQuery \<Rightarrow> Filter" where
  "query_filter start query =
     (let f1 = (case truthy (pq_category query) of
                  None \<Rightarrow> start
                | Some c \<Rightarrow> start\<lparr>f_category := Some (CategoryIs c)\<rparr>);
          f2 = (case pq_status query of
                  None \<Rightarrow> f1
                | Some s \<Rightarrow> f1\<lparr>f_status := Some s\<rparr>);
          f3 = (if pq_minROI query \<noteq> None \<or> pq_maxROI query \<noteq> None
                then f2\<lparr>f_roiPercent :=
                       Some \<lparr> gte = pq_minROI query, lte = pq_maxROI query \<rparr>\<rparr>
                else f2)
      in case truthy (pq_search query) of
           None \<Rightarrow> f3
         | Some s \<Rightarrow> f3\<lparr>f_or := Some s\<rparr>)"

definition list_projects ::
  "(string \<Rightarrow> string \<Rightarrow> bool) \<Rightarrow> Project list \<Rightarrow> Filter \<Rightarrow> ProjectQuery \<Rightarrow> error + ListResult"
  where
  "list_projects rx docs f query =
     (let skip = (pq_page query - 1) * pq_limit query
      in bind_res (Project_find rx docs f (S_createdAt, - 1) skip (pq_limit query)) (\<lambda>ps.
           Inr \<lparr> projects = ps,
                 pagination = pagination_of (pq_page query) (pq_limit query)
                                (Project_countDocuments rx docs f) \<rparr>))"

definition ProjectService_getAllProjects ::
  "(string \<Rightarrow> string \<Rightarrow> bool) \<Rightarrow> Project list \<Rightarrow> ProjectQuery \<Rightarrow> error + ListResult" where
  "ProjectService_getAllProjects rx docs query =
     list_projects rx docs
       (query_filter (no_filter\<lparr>f_isPremium := Some (PremiumNot True)\<rparr>) query) query"

definition ProjectService_getPremiumProjects ::
  "(string \<Rightarrow> string \<Rightarrow> bool) \<Rightarrow> Project list \<Rightarrow> ProjectQuery \<Rightarrow> error + ListResult" where
  "ProjectService_getPremiumProjects rx docs query =
     list_projects rx docs
       (query_filter (no_filter\<lparr>f_isPremium := Some (PremiumIs True)\<rparr>) query) query"

text \<open>\<^verbatim>\<open>throw new AppError(m, 403)\<close>.\<close>

definition forbidden :: "string \<Rightarrow> error + 'a" where
  "forbidden m = Inl (AppError [Lit m] 403)"

text \<open>
  The filter of \<^verbatim>\<open>advancedSearch\<close>, block by block in the order of the source: the three
  basic filters, then the four gated ones. \<^verbatim>\<open>hasFeatureAccess\<close> is called only where the
  source calls it: after \<^verbatim>\<open>&&\<close> when the left operand is truthy, and inside a gate's
  \<^verbatim>\<open>if\<close> when its condition holds.
\<close>

definition basic_filters :: "string \<Rightarrow> AdvancedSearchInput \<Rightarrow> error + Filter" where
  "basic_filters userPlan q =
     bind_res (case truthy (q_category q) of
                 None \<Rightarrow> Inr no_filter
               | Some c \<Rightarrow>
                   bind_res (hasFeatureAccess userPlan BasicFilters) (\<lambda>b.
                     Inr (if b then no_filter\<lparr>f_category := Some (CategoryIs c)\<rparr>
                          else no_filter))) (\<lambda>f1.
     bind_res (case q_status q of
                 None \<Rightarrow> Inr f1
               | Some s \<Rightarrow>
                   bind_res (hasFeatureAccess userPlan BasicFilters) (\<lambda>b.
                     Inr (if b then f1\<lparr>f_status := Some s\<rparr> else f1))) (\<lambda>f2.
     (case truthy (q_search q) of
        None \<Rightarrow> Inr f2
      | Some s \<Rightarrow>
          bind_res (hasFeatureAccess userPlan BasicFilters) (\<lambda>b.
            Inr (if b then f2\<lparr>f_or := Some s\<rparr> else f2)))))"

definition categories_gate :: "string \<Rightarrow> AdvancedSearchInput \<Rightarrow> Filter \<Rightarrow> error + Filter" where
  "categories_gate userPlan q f =
     (case q_categories q of
        None \<Rightarrow> Inr f
      | Some cs \<Rightarrow>
          if length cs > 0 then
            bind_res (hasFeatureAccess userPlan MultipleCategories) (\<lambda>b.
              if \<not> b then
                forbidden ''Multiple category selection requires Plus or Premium plan''
              else Inr (f\<lparr>f_category := Some (CategoryIn cs)\<rparr>))
          else Inr f)"

definition roi_gate :: "string \<Rightarrow> AdvancedSearchInput \<Rightarrow> Filter \<Rightarrow> error + Filter" where
  "roi_gate userPlan q f =
     (if q_minROI q \<noteq> None \<or> q_maxROI q \<noteq> None then
        bind_res (hasFeatureAccess userPlan RoiRange) (\<lambda>b.
          if \<not> b then forbidden ''ROI range filter requires Basic plan or higher''
          else Inr (f\<lparr>f_roiPercent := Some \<lparr> gte = q_minROI q, lte = q_maxROI q \<rparr>\<rparr>))
      else Inr f)"

definition amount_gate :: "string \<Rightarrow> AdvancedSearchInput \<Rightarrow> Filter \<Rightarrow> error + Filter" where
  "amount_gate userPlan q f =
     (if q_minAmount q \<noteq> None \<or> q_maxAmount q \<noteq> None then
        bind_res (hasFeatureAccess userPlan AmountRange) (\<lambda>b.
          if \<not> b then forbidden ''Amount range filter requires Plus plan or higher''
          else Inr (f\<lparr>f_targetAmount :=
                      Some \<lparr> gte = q_minAmount q, lte = q_maxAmount q \<rparr>\<rparr>))
      else Inr f)"

definition duration_gate :: "string \<Rightarrow> AdvancedSearchInput \<Rightarrow> Filter \<Rightarrow> error + Filter" where
  "duration_gate userPlan q f =
     (if q_minDuration q \<noteq> None \<or> q_maxDuration q \<noteq> None then
        bind_res (hasFeatureAccess userPlan DurationFilter) (\<lambda>b.
          if \<not> b then forbidden ''Duration filter requires Plus plan or higher''
          else Inr (f\<lparr>f_durationMonths :=
                      Some \<lparr> gte = q_minDuration q, lte = q_maxDuration q \<rparr>\<rparr>))
      else Inr f)"

definition advancedSearch_filter :: "string \<Rightarrow> AdvancedSearchInput \<Rightarrow> error + Filter" where
  "advancedSearch_filter userPlan q =
     bind_res (basic_filters userPlan q) (\<lambda>f3.
     bind_res (categories_gate userPlan q f3) (\<lambda>f4.
     bind_res (roi_gate userPlan q f4) (\<lambda>f5.
     bind_res (amount_gate userPlan q f5) (\<lambda>f6.
       duration_gate userPlan q f6))))"

text \<open>The sort object of \<^verbatim>\<open>advancedSearch\<close>.\<close>

definition advancedSearch_sort :: "string \<Rightarrow> AdvancedSearchInput \<Rightarrow> error + SortField \<times> int"
  where
  "advancedSearch_sort userPlan q =
     (if q_sortBy q \<noteq> S_createdAt \<or> q_sortOrder q \<noteq> Desc then
        bind_res (hasFeatureAccess userPlan AdvancedSort) (\<lambda>b.
          if \<not> b then forbidden ''Advanced sorting requires Premium plan''
          else if q_sortBy q = S_progress then Inr (S_createdAt, - 1)
          else Inr (q_sortBy q, if q_sortOrder q = Asc then 1 else - 1))
      else Inr (S_createdAt, - 1))"

definition ProjectService_advancedSearch ::
  "(string \<Rightarrow> string \<Rightarrow> bool) \<Rightarrow> Project list \<Rightarrow> RawSearch \<Rightarrow> string \<Rightarrow> error + SearchResult"
  where
  "ProjectService_advancedSearch rx docs searchInput userPlan =
     bind_res (advancedSearchSchema_parse searchInput) (\<lambda>q.
     bind_res (advancedSearch_filter userPlan q) (\<lambda>f.
     (let skip = (q_page q - 1) * q_limit q
      in bind_res (advancedSearch_sort userPlan q) (\<lambda>sortObject.
         bind_res (Project_find rx docs f sortObject skip (q_limit q)) (\<lambda>ps.
           Inr \<lparr> projects = ps,
                 pagination = pagination_of (q_page q) (q_limit q)
                                (Project_countDocuments rx docs f),
                 planFeatures = getPlanFeatures userPlan \<rparr>)))))"

text \<open>\<^verbatim>\<open>req.user?.planKey || 'free'\<close>, for a request whose user or plan key may be absent.\<close>

fun plan_of_request :: "string option \<Rightarrow> string" where
  "plan_of_request None = ''free''"
| "plan_of_request (Some k) = (if k = [] then ''free'' else k)"

definition ProjectController_getAllProjects ::
  "(string \<Rightarrow> string \<Rightarrow> bool) \<Rightarrow> Project list \<Rightarrow> RawQuery \<Rightarrow> ListResult reply" where
  "ProjectController_getAllProjects rx docs query =
     (case bind_res (projectQuerySchema_parse query) (ProjectService_getAllProjects rx docs) of
        Inl e \<Rightarrow> Next e
      | Inr r \<Rightarrow> Reply 200 r)"

definition ProjectController_advancedSearch ::
  "(string \<Rightarrow> string \<Rightarrow> bool) \<Rightarrow> Project list \<Rightarrow> string option \<Rightarrow> RawSearch
   \<Rightarrow> SearchResult reply" where
  "ProjectController_advancedSearch rx docs planKey body =
     (case ProjectService_advancedSearch rx docs body (plan_of_request planKey) of
        Inl e \<Rightarrow> Next e
      | Inr r \<Rightarrow> Reply 200 r)"

definition ProjectController_getPremiumProjects ::
  "(string \<Rightarrow> string \<Rightarrow> bool) \<Rightarrow> Project list \<Rightarrow> string option \<Rightarrow> RawQuery
   \<Rightarrow> ListResult reply" where
  "ProjectController_getPremiumProjects rx docs planKey query =
     (if plan_of_request planKey \<noteq> ''premium'' then
        Refuse 403 [Lit ''Premium plan required to access premium projects'']
      else
        (case bind_res (projectQuerySchema_parse query)
                (ProjectService_getPremiumProjects rx docs) of
           Inl e \<Rightarrow> Next e
         | Inr r \<Rightarrow> Reply 200 r))"

text \<open>
  The gated filter dimensions, and when a validated request supplies one: a non-empty list
  of categories, or a bound of the range.
\<close>

fun supplies :: "AdvancedSearchInput \<Rightarrow> Feature \<Rightarrow> bool" where
  "supplies q MultipleCategories =
     (case q_categories q of None \<Rightarrow> False | Some cs \<Rightarrow> cs \<noteq> [])"
| "supplies q RoiRange = (q_minROI q \<noteq> None \<or> q_maxROI q \<noteq> None)"
| "supplies q AmountRange = (q_minAmount q \<noteq> None \<or> q_maxAmount q \<noteq> None)"
| "supplies q DurationFilter = (q_minDuration q \<noteq> None \<or> q_maxDuration q \<noteq> None)"
| "supplies q BasicFilters = False"
| "supplies q AdvancedSort = False"

text \<open>The name of the plan that \<open>getMinimumPlanForFeature\<close> returns, as the tiers spell it.\<close>

definition minimum_plan_name :: "Feature \<Rightarrow> string" where
  "minimum_plan_name feature =
     (case getMinimumPlanForFeature feature of
        Inl e \<Rightarrow> []
      | Inr k \<Rightarrow> (case map_of PLAN_FEATURES k of None \<Rightarrow> [] | Some plan \<Rightarrow> name plan))"

section \<open>Documents and requests for the search examples\<close>

text \<open>
  Three projects in insertion order, the second one premium; a request body and a query
  string with no field; and a stand-in for the database's regular-expression match, which
  no example calls.
\<close>

definition premium_project :: Project where
  "premium_project = example_project\<lparr>title := ''Harbour wind park'', roiPercent := 35,
     isPremium := True, createdAt := 20\<rparr>"

definition biogas_project :: Project where
  "biogas_project = example_project\<lparr>title := ''Biogas plant'', roiPercent := 8,
     createdAt := 30\<rparr>"

definition example_docs :: "Project list" where
  "example_docs = [example_project, premium_project, biogas_project]"

definition no_match :: "string \<Rightarrow> string \<Rightarrow> bool" where
  "no_match pattern s = False"

definition empty_search :: RawSearch where
  "empty_search = \<lparr> rs_page = None, rs_limit = None, rs_category = None, rs_status = None,
     rs_search = None, rs_categories = None, rs_minROI = None, rs_maxROI = None,
     rs_minAmount = None, rs_maxAmount = None, rs_minDuration = None, rs_maxDuration = None,
     rs_sortBy = None, rs_sortOrder = None \<rparr>"

definition default_search :: AdvancedSearchInput where
  "default_search = \<lparr> q_page = 1, q_limit = 20, q_category = None, q_status = None,
     q_search = None, q_categories = None, q_minROI = None, q_maxROI = None,
     q_minAmount = None, q_maxAmount = None, q_minDuration = None, q_maxDuration = None,
     q_sortBy = S_createdAt, q_sortOrder = Desc \<rparr>"

definition empty_query :: RawQuery where
  "empty_query = \<lparr> rq_page = None, rq_limit = None, rq_category = None, rq_status = None,
     rq_minROI = None, rq_maxROI = None, rq_search = None \<rparr>"

section \<open>Plan features: results\<close>

lemma index_PLAN_FEATURES_own:
  "index_PLAN_FEATURES ''free'' = PlanObject free_plan"
  "index_PLAN_FEATURES ''basic'' = PlanObject basic_plan"
  "index_PLAN_FEATURES ''plus'' = PlanObject plus_plan"
  "index_PLAN_FEATURES ''premium'' = PlanObject premium_plan"
  by (simp_all add: index_PLAN_FEATURES_def PLAN_FEATURES_def)

lemma index_PLAN_FEATURES_unknown:
  assumes "planKey \<notin> {''free'', ''basic'', ''plus'', ''premium''}"
    and "planKey \<notin> set Object_prototype"
  shows "index_PLAN_FEATURES planKey = Undefined"
  using assms by (simp add: index_PLAN_FEATURES_def PLAN_FEATURES_def)

text \<open>
  A key that is neither a tier nor a property name of \<^verbatim>\<open>Object.prototype\<close> resolves to the
  free tier; the empty key is one of them.
\<close>

lemma unknown_plan_is_free:
  assumes "planKey \<notin> {''free'', ''basic'', ''plus'', ''premium''}"
    and "planKey \<notin> set Object_prototype"
  shows "getPlanFeatures planKey = PlanObject free_plan"
    and "hasFeatureAccess planKey x = hasFeatureAccess ''free'' x"
  using index_PLAN_FEATURES_unknown [OF assms]
  by (simp_all add: getPlanFeatures_def hasFeatureAccess_def index_PLAN_FEATURES_own)

lemma empty_plan_is_free:
  "getPlanFeatures [] = PlanObject free_plan"
  "hasFeatureAccess [] x = hasFeatureAccess ''free'' x"
  by (simp_all add: getPlanFeatures_def hasFeatureAccess_def index_PLAN_FEATURES_def
      PLAN_FEATURES_def Object_prototype_def)

text \<open>
  Claim C8. The claim: for every capability \<open>x\<close> and every plan key outside
  \<open>{free, basic, plus, premium}\<close>, \<open>getPlanFeatures\<close> returns the free tier's features and
  \<open>hasFeatureAccess planKey x\<close> equals \<open>hasFeatureAccess free x\<close>. The code at the plan key
  \<^verbatim>\<open>'constructor'\<close>: the index expression finds the inherited \<^verbatim>\<open>Object.prototype.constructor\<close>,
  which is truthy, so the fallback to the free tier is not taken; \<open>getPlanFeatures\<close> returns
  that member instead of the free tier's features, and \<open>hasFeatureAccess\<close> throws a TypeError
  where the free tier answers \<open>False\<close>.
\<close>

theorem inherited_plan_key_not_free:
  "''constructor'' \<notin> {''free'', ''basic'', ''plus'', ''premium''}
   \<and> getPlanFeatures ''constructor'' = PrototypeMember ''constructor''
   \<and> getPlanFeatures ''free'' = PlanObject free_plan
   \<and> hasFeatureAccess ''constructor'' RoiRange = Inl TypeError
   \<and> hasFeatureAccess ''free'' RoiRange = Inr False"
  by (simp add: getPlanFeatures_def hasFeatureAccess_def index_PLAN_FEATURES_def
      PLAN_FEATURES_def Object_prototype_def free_plan_def)

section \<open>Investing: the order of the checks\<close>

text \<open>
  Claim C10. When the project id, the amount or the payment method of the body is absent
  or falsy (an amount of 0 is), \<open>createInvestment\<close> passes the one error "Project ID, amount,
  and payment method are required" with status 400 and leaves the store as it was. The
  store does not occur in the condition: the project is not looked up and its minimum
  investment is not compared.
\<close>

theorem required_fields_first:
  assumes "falsy_str (body_projectId body) \<or> falsy_num (body_amount body)
           \<or> falsy_str (body_paymentMethod body)"
  shows "createInvestment now uid body st =
           (Next (AppError [Lit ''Project ID, amount, and payment method are required''] 400), st)"
proof (cases "body_projectId body")
  case None
  then show ?thesis by (simp add: createInvestment_def required_msg_def)
next
  case pid: (Some pid)
  show ?thesis
  proof (cases "body_amount body")
    case None
    with pid show ?thesis by (simp add: createInvestment_def required_msg_def)
  next
    case amt: (Some amt)
    show ?thesis
    proof (cases "body_paymentMethod body")
      case None
      with pid amt show ?thesis by (simp add: createInvestment_def required_msg_def)
    next
      case (Some pm)
      with pid amt assms show ?thesis
        by (auto simp add: createInvestment_def required_msg_def)
    qed
  qed
qed

text \<open>An amount of 0 for a project that does not exist: status 400, not 404.\<close>

theorem required_fields_first_witness:
  "Project_findById example_store ''p9'' = None \<and>
   createInvestment 5 ''u1'' (invest_body ''p9'' 0 ''paypal'') example_store =
     (Next (AppError [Lit ''Project ID, amount, and payment method are required''] 400),
      example_store)"
  using required_fields_first [of "invest_body ''p9'' 0 ''paypal''" 5 "''u1''" example_store]
  by (simp add: invest_body_def Project_findById_def example_store_def)




section \<open>Cancelling\<close>








section \<open>Investing: what is written and what is answered\<close>

text \<open>
  The payment record that \<open>createInvestment\<close> builds has no \<^verbatim>\<open>subscriptionId\<close>, which the
  payment schema requires, and the status \<^verbatim>\<open>'completed'\<close>, which is not one of the schema's
  four. \<^verbatim>\<open>Payment.create\<close> rejects it, after the investment and the project have been
  written: no call is answered with 201.
\<close>

lemma createInvestment_never_replies:
  "fst (createInvestment now uid body st) \<noteq> Reply c i"
  by (auto simp add: createInvestment_def Let_def Payment_create_def Payment_schema_def
      split: option.splits sum.splits prod.splits)

text \<open>
  What a call writes when it passes every check and names one of the four payment methods:
  a completed investment with the expected return \<open>amount * (1 + roiPercent / 100)\<close>, and
  the project with the amount added to the funded amount, one investor more, and the
  status completed exactly when the new funded amount reaches the target.
\<close>

lemma createInvestment_writes:
  assumes "body_projectId body = Some pid" and "body_amount body = Some amt"
    and "body_paymentMethod body = Some pm"
    and "pid \<noteq> []" and "amt \<noteq> 0"
    and "pm \<in> set [''stripe'', ''paypal'', ''bank_transfer'', ''wallet'']"
    and "Project_findById st pid = Some p" and "Project_schema p"
    and "status p = P_active" and "minInvestment p \<le> amt"
    and "fundedAmount p + amt \<le> targetAmount p"
  shows "createInvestment now uid body st =
    (Next ValidationError,
     st\<lparr>Investment_docs := Investment_docs st @
          [\<lparr> userId = uid, projectId = pid, amount = amt, paymentMethod = pm,
             inv_status = I_completed, investmentDate = now,
             expectedReturn = amt * (1 + roiPercent p / 100),
             expectedReturnDate = Some (now, durationMonths p),
             refundReason = None, refundDate = None \<rparr>],
        Project_docs := AList.update pid
          (p\<lparr>fundedAmount := fundedAmount p + amt,
             totalInvestors := totalInvestors p + 1,
             status := (if targetAmount p \<le> fundedAmount p + amt then P_completed
                        else P_active)\<rparr>)
          (Project_docs st)\<rparr>)"
proof -
  have pos: "0 < amt"
    using assms(5,8,10) by (simp add: Project_schema_def)
  have er: "amt + amt * roiPercent p / 100 = amt * (1 + roiPercent p / 100)"
    by (simp add: algebra_simps)
  have ernn: "0 \<le> amt * (1 + roiPercent p / 100)"
    using pos assms(8) by (simp add: Project_schema_def)
  have dm: "durationMonths p \<noteq> 0"
    using assms(8) by (simp add: Project_schema_def)
  have pm: "pm \<noteq> []"
    using assms(6) by auto
  have below: "\<not> targetAmount p \<le> fundedAmount p" "\<not> targetAmount p < fundedAmount p + amt"
    using pos assms(11) by simp_all
  have ti: "or_default (totalInvestors p) 0 + 1 = totalInvestors p + 1"
    by (simp add: or_default_def)
  have act: "q\<lparr>status := P_active\<rparr> = q" if "status q = P_active" for q :: Project
    using that by (cases q) simp
  show ?thesis
    using assms pos ernn dm pm below
    by (simp add: createInvestment_def Let_def er ti act Investment_create_def
        Investment_schema_def Project_save_def Project_schema_def Payment_create_def
        Payment_schema_def)
qed

text \<open>
  Claim C3. The claim: a call that satisfies all preconditions succeeds; in particular an
  investment equal to the remaining headroom succeeds and completes the project. The code
  on the project with 900 of 1000 funded, a minimum of 100 and a return of 20 percent, for
  an investment of 100 paid by \<^verbatim>\<open>'stripe'\<close>: the investment is created as completed with an
  expected return of 120, the project is saved with 1000 funded, 4 investors and the status
  completed, then the payment record is rejected and the call is answered with status 400
  "Validation error" instead of 201.
\<close>

theorem invest_headroom_answers_400:
  "createInvestment 5 ''u1'' (invest_body ''p1'' 100 ''stripe'') example_store =
     (Next ValidationError,
      \<lparr> Project_docs =
          [(''p1'', example_project\<lparr>fundedAmount := 1000, totalInvestors := 4,
                     status := P_completed\<rparr>)],
        Investment_docs =
          [\<lparr> userId = ''u1'', projectId = ''p1'', amount = 100, paymentMethod = ''stripe'',
             inv_status = I_completed, investmentDate = 5, expectedReturn = 120,
             expectedReturnDate = Some (5, 12), refundReason = None, refundDate = None \<rparr>],
        Payment_docs = [] \<rparr>) \<and>
   errorHandler ValidationError = (400, [Lit ''Validation error''])"
  by (simp add: createInvestment_def invest_body_def example_store_def example_project_def
      Let_def Project_findById_def Investment_create_def Investment_schema_def
      Project_save_def Project_schema_def Payment_create_def Payment_schema_def
      or_default_def)

section \<open>The ledger invariant\<close>

subsection \<open>Sums of completed amounts\<close>






subsection \<open>What a call writes\<close>














section \<open>Searching and listing\<close>

subsection \<open>Plans and gates\<close>

lemma bind_res_Inr:
  "bind_res m k = Inr y \<longleftrightarrow> (\<exists>x. m = Inr x \<and> k x = Inr y)"
  by (cases m) simp_all

text \<open>A plan key for which one feature is answered has a plan whose flags answer all.\<close>

lemma hasFeatureAccess_resolved:
  assumes "hasFeatureAccess userPlan d = Inr b"
  shows "\<exists>plan. plan \<in> {free_plan, basic_plan, plus_plan, premium_plan} \<and>
           (\<forall>f. hasFeatureAccess userPlan f = Inr (flag (searchFilters plan) f))"
proof (cases "map_of PLAN_FEATURES userPlan")
  case None
  show ?thesis
  proof (cases "userPlan \<in> set Object_prototype")
    case True
    with None assms show ?thesis
      by (simp add: hasFeatureAccess_def index_PLAN_FEATURES_def)
  next
    case False
    with None have "\<forall>f. hasFeatureAccess userPlan f = Inr (flag (searchFilters free_plan) f)"
      by (simp add: hasFeatureAccess_def index_PLAN_FEATURES_def)
    then show ?thesis by blast
  qed
next
  case (Some plan)
  then have "plan \<in> {free_plan, basic_plan, plus_plan, premium_plan}"
    by (auto simp add: PLAN_FEATURES_def split: if_splits)
  moreover from Some have "\<forall>f. hasFeatureAccess userPlan f = Inr (flag (searchFilters plan) f)"
    by (simp add: hasFeatureAccess_def index_PLAN_FEATURES_def)
  ultimately show ?thesis by blast
qed

lemma minimum_plan_names:
  "minimum_plan_name MultipleCategories = ''Plus''"
  "minimum_plan_name RoiRange = ''Basic''"
  "minimum_plan_name AmountRange = ''Plus''"
  "minimum_plan_name DurationFilter = ''Plus''"
  "minimum_plan_name AdvancedSort = ''Premium''"
  by (simp_all add: minimum_plan_name_def getMinimumPlanForFeature_def PLAN_FEATURES_def
      free_plan_def basic_plan_def plus_plan_def premium_plan_def)

lemma messages_name_plan:
  "sublist ''Plus'' ''Multiple category selection requires Plus or Premium plan''"
  "sublist ''Basic'' ''ROI range filter requires Basic plan or higher''"
  "sublist ''Plus'' ''Amount range filter requires Plus plan or higher''"
  "sublist ''Plus'' ''Duration filter requires Plus plan or higher''"
  "sublist ''Premium'' ''Advanced sorting requires Premium plan''"
  by (simp_all add: sublist_code)


lemma basic_filters_pass:
  fixes plan :: PlanFeatures
  assumes acc: "\<And>f. hasFeatureAccess userPlan f = Inr (flag (searchFilters plan) f)"
  shows "\<exists>f. basic_filters userPlan q = Inr f"
  by (simp add: basic_filters_def acc split: option.splits)

lemma gates_resolved:
  fixes plan :: PlanFeatures
  assumes acc: "\<And>f. hasFeatureAccess userPlan f = Inr (flag (searchFilters plan) f)"
  shows "categories_gate userPlan q f =
           (if supplies q MultipleCategories \<and> \<not> multipleCategories (searchFilters plan)
            then forbidden ''Multiple category selection requires Plus or Premium plan''
            else Inr (if supplies q MultipleCategories
                      then f\<lparr>f_category := map_option CategoryIn (q_categories q)\<rparr> else f))"
    and "roi_gate userPlan q f =
           (if supplies q RoiRange \<and> \<not> roiRange (searchFilters plan)
            then forbidden ''ROI range filter requires Basic plan or higher''
            else Inr (if supplies q RoiRange
                      then f\<lparr>f_roiPercent := Some \<lparr> gte = q_minROI q, lte = q_maxROI q \<rparr>\<rparr>
                      else f))"
    and "amount_gate userPlan q f =
           (if supplies q AmountRange \<and> \<not> amountRange (searchFilters plan)
            then forbidden ''Amount range filter requires Plus plan or higher''
            else Inr (if supplies q AmountRange
                      then f\<lparr>f_targetAmount :=
                             Some \<lparr> gte = q_minAmount q, lte = q_maxAmount q \<rparr>\<rparr>
                      else f))"
    and "duration_gate userPlan q f =
           (if supplies q DurationFilter \<and> \<not> durationFilter (searchFilters plan)
            then forbidden ''Duration filter requires Plus plan or higher''
            else Inr (if supplies q DurationFilter
                      then f\<lparr>f_durationMonths :=
                             Some \<lparr> gte = q_minDuration q, lte = q_maxDuration q \<rparr>\<rparr>
                      else f))"
  by (simp_all add: categories_gate_def roi_gate_def amount_gate_def duration_gate_def acc
      split: option.splits)

text \<open>
  The filter of a request, for a plan key that resolves to a plan: the error of the first
  gate, in source order, whose dimension is supplied and not granted; a filter when there
  is no such gate.
\<close>

lemma advancedSearch_filter_gates:
  fixes plan :: PlanFeatures
  assumes acc: "\<And>f. hasFeatureAccess userPlan f = Inr (flag (searchFilters plan) f)"
  shows "advancedSearch_filter userPlan q =
    (if supplies q MultipleCategories \<and> \<not> multipleCategories (searchFilters plan)
     then forbidden ''Multiple category selection requires Plus or Premium plan''
     else if supplies q RoiRange \<and> \<not> roiRange (searchFilters plan)
     then forbidden ''ROI range filter requires Basic plan or higher''
     else if supplies q AmountRange \<and> \<not> amountRange (searchFilters plan)
     then forbidden ''Amount range filter requires Plus plan or higher''
     else if supplies q DurationFilter \<and> \<not> durationFilter (searchFilters plan)
     then forbidden ''Duration filter requires Plus plan or higher''
     else advancedSearch_filter userPlan q)"
    and "(supplies q MultipleCategories \<longrightarrow> multipleCategories (searchFilters plan)) \<Longrightarrow>
     (supplies q RoiRange \<longrightarrow> roiRange (searchFilters plan)) \<Longrightarrow>
     (supplies q AmountRange \<longrightarrow> amountRange (searchFilters plan)) \<Longrightarrow>
     (supplies q DurationFilter \<longrightarrow> durationFilter (searchFilters plan))
     \<Longrightarrow> \<exists>f. advancedSearch_filter userPlan q = Inr f"
proof -
  obtain f3 where f3: "basic_filters userPlan q = Inr f3"
    using basic_filters_pass [OF acc] by blast
  show "advancedSearch_filter userPlan q =
    (if supplies q MultipleCategories \<and> \<not> multipleCategories (searchFilters plan)
     then forbidden ''Multiple category selection requires Plus or Premium plan''
     else if supplies q RoiRange \<and> \<not> roiRange (searchFilters plan)
     then forbidden ''ROI range filter requires Basic plan or higher''
     else if supplies q AmountRange \<and> \<not> amountRange (searchFilters plan)
     then forbidden ''Amount range filter requires Plus plan or higher''
     else if supplies q DurationFilter \<and> \<not> durationFilter (searchFilters plan)
     then forbidden ''Duration filter requires Plus plan or higher''
     else advancedSearch_filter userPlan q)"
    by (simp add: advancedSearch_filter_def f3 gates_resolved [OF acc] forbidden_def
        del: supplies.simps)
  show "\<exists>f. advancedSearch_filter userPlan q = Inr f"
    if "supplies q MultipleCategories \<longrightarrow> multipleCategories (searchFilters plan)"
     "supplies q RoiRange \<longrightarrow> roiRange (searchFilters plan)"
     "supplies q AmountRange \<longrightarrow> amountRange (searchFilters plan)"
     "supplies q DurationFilter \<longrightarrow> durationFilter (searchFilters plan)"
  proof -
    have n: "\<not> (supplies q MultipleCategories \<and> \<not> multipleCategories (searchFilters plan))"
      "\<not> (supplies q RoiRange \<and> \<not> roiRange (searchFilters plan))"
      "\<not> (supplies q AmountRange \<and> \<not> amountRange (searchFilters plan))"
      "\<not> (supplies q DurationFilter \<and> \<not> durationFilter (searchFilters plan))"
      using that by blast+
    show ?thesis
      by (simp only: advancedSearch_filter_def f3 gates_resolved [OF acc] n if_False
          bind_res.simps) blast
  qed
qed


text \<open>
  Claim C4. For every request that the schema accepts and that supplies a gated filter
  dimension (a non-empty list of categories, a bound on the return, on the target amount or
  on the duration) which the caller's plan does not grant, \<open>advancedSearch\<close> throws an
  AppError with status 403 and returns no result. The error is that of a dimension \<open>d'\<close>
  that the request supplies and the plan does not grant (the first such in source order),
  and its message contains the name of the cheapest plan that grants \<open>d'\<close>.
\<close>

theorem gated_filter_forbidden:
  assumes parse: "advancedSearchSchema_parse searchInput = Inr q"
    and sup: "supplies q d"
    and lack: "hasFeatureAccess userPlan d = Inr False"
  shows "\<exists>d' m. ProjectService_advancedSearch rx docs searchInput userPlan =
                   Inl (AppError [Lit m] 403) \<and>
                 supplies q d' \<and> hasFeatureAccess userPlan d' = Inr False \<and>
                 sublist (minimum_plan_name d') m"
proof -
  from hasFeatureAccess_resolved [OF lack] obtain plan :: PlanFeatures
    where acc: "\<And>f. hasFeatureAccess userPlan f = Inr (flag (searchFilters plan) f)"
    by blast
  from lack acc have nd: "\<not> flag (searchFilters plan) d" by simp
  have search: "ProjectService_advancedSearch rx docs searchInput userPlan = Inl e"
    if "advancedSearch_filter userPlan q = Inl e" for e
    using parse that by (simp add: ProjectService_advancedSearch_def)
  note gates = advancedSearch_filter_gates(1) [OF acc, of q]
  have blocked:
    "(supplies q MultipleCategories \<and> \<not> multipleCategories (searchFilters plan)) \<or>
     (supplies q RoiRange \<and> \<not> roiRange (searchFilters plan)) \<or>
     (supplies q AmountRange \<and> \<not> amountRange (searchFilters plan)) \<or>
     (supplies q DurationFilter \<and> \<not> durationFilter (searchFilters plan))"
    using sup nd by (cases d) simp_all
  consider
      (categories) "supplies q MultipleCategories" "\<not> multipleCategories (searchFilters plan)"
    | (roi) "\<not> (supplies q MultipleCategories \<and> \<not> multipleCategories (searchFilters plan))"
        "supplies q RoiRange" "\<not> roiRange (searchFilters plan)"
    | (amount) "\<not> (supplies q MultipleCategories \<and> \<not> multipleCategories (searchFilters plan))"
        "\<not> (supplies q RoiRange \<and> \<not> roiRange (searchFilters plan))"
        "supplies q AmountRange" "\<not> amountRange (searchFilters plan)"
    | (duration) "\<not> (supplies q MultipleCategories \<and> \<not> multipleCategories (searchFilters plan))"
        "\<not> (supplies q RoiRange \<and> \<not> roiRange (searchFilters plan))"
        "\<not> (supplies q AmountRange \<and> \<not> amountRange (searchFilters plan))"
        "supplies q DurationFilter" "\<not> durationFilter (searchFilters plan)"
    using blocked by blast
  then show ?thesis
  proof cases
    case categories
    with gates have "advancedSearch_filter userPlan q =
        forbidden ''Multiple category selection requires Plus or Premium plan''"
      by (simp only: simp_thms if_True)
    then have "ProjectService_advancedSearch rx docs searchInput userPlan =
        Inl (AppError [Lit ''Multiple category selection requires Plus or Premium plan''] 403)"
      by (simp add: search forbidden_def)
    moreover have "hasFeatureAccess userPlan MultipleCategories = Inr False"
      using categories acc by simp
    ultimately show ?thesis
      using categories(1) minimum_plan_names(1) messages_name_plan(1) by metis
  next
    case roi
    with gates have "advancedSearch_filter userPlan q =
        forbidden ''ROI range filter requires Basic plan or higher''"
      by (simp only: simp_thms if_True if_False)
    then have "ProjectService_advancedSearch rx docs searchInput userPlan =
        Inl (AppError [Lit ''ROI range filter requires Basic plan or higher''] 403)"
      by (simp add: search forbidden_def)
    moreover have "hasFeatureAccess userPlan RoiRange = Inr False"
      using roi acc by simp
    ultimately show ?thesis
      using roi(2) minimum_plan_names(2) messages_name_plan(2) by metis
  next
    case amount
    with gates have "advancedSearch_filter userPlan q =
        forbidden ''Amount range filter requires Plus plan or higher''"
      by (simp only: simp_thms if_True if_False)
    then have "ProjectService_advancedSearch rx docs searchInput userPlan =
        Inl (AppError [Lit ''Amount range filter requires Plus plan or higher''] 403)"
      by (simp add: search forbidden_def)
    moreover have "hasFeatureAccess userPlan AmountRange = Inr False"
      using amount acc by simp
    ultimately show ?thesis
      using amount(3) minimum_plan_names(3) messages_name_plan(3) by metis
  next
    case duration
    with gates have "advancedSearch_filter userPlan q =
        forbidden ''Duration filter requires Plus plan or higher''"
      by (simp only: simp_thms if_True if_False)
    then have "ProjectService_advancedSearch rx docs searchInput userPlan =
        Inl (AppError [Lit ''Duration filter requires Plus plan or higher''] 403)"
      by (simp add: search forbidden_def)
    moreover have "hasFeatureAccess userPlan DurationFilter = Inr False"
      using duration acc by simp
    ultimately show ?thesis
      using duration(4) minimum_plan_names(4) messages_name_plan(4) by metis
  qed
qed


subsection \<open>Sorting\<close>

lemma bind_res_InrE:
  assumes "bind_res m k = Inr y"
  obtains x where "m = Inr x" and "k x = Inr y"
  using assms by (cases m) simp_all

lemma with_default_page:
  assumes "with_default d (optional (\<lambda>x. is_integer x \<and> 1 \<le> x \<and> P x) floor v) = Inr n"
    and "1 \<le> d"
  shows "1 \<le> n"
proof (cases v)
  case None
  with assms show ?thesis by simp
next
  case (Some x)
  with assms have "1 \<le> x" and "n = floor x"
    by (auto split: if_splits)
  then show ?thesis by linarith
qed

lemma parse_page_limit:
  assumes "advancedSearchSchema_parse r = Inr q"
  shows "1 \<le> q_page q" and "1 \<le> q_limit q"
proof -
  from assms obtain pg lmt q' where
    pg: "with_default 1 (optional (\<lambda>x. is_integer x \<and> 1 \<le> x) floor (rs_page r)) = Inr pg"
    and lmt: "with_default 20
        (optional (\<lambda>x. is_integer x \<and> 1 \<le> x \<and> x \<le> 100) floor (rs_limit r)) = Inr lmt"
    and q: "q_page q = pg" "q_limit q = lmt"
    unfolding advancedSearchSchema_parse_def
    by (elim bind_res_InrE) auto
  have "1 \<le> pg"
    using with_default_page [of 1 "\<lambda>x. True" "rs_page r" pg] pg by simp
  moreover have "1 \<le> lmt"
    using with_default_page [of 20 "\<lambda>x. x \<le> 100" "rs_limit r" lmt] lmt by simp
  ultimately show "1 \<le> q_page q" and "1 \<le> q_limit q" using q by simp_all
qed

lemma parse_default_sort:
  assumes "advancedSearchSchema_parse r = Inr q"
  shows "advancedSearchSchema_parse (r\<lparr>rs_sortBy := None, rs_sortOrder := None\<rparr>) =
           Inr (q\<lparr>q_sortBy := S_createdAt, q_sortOrder := Desc\<rparr>)"
  using assms unfolding advancedSearchSchema_parse_def
  by (elim bind_res_InrE) auto


lemma Project_find_subset:
  assumes "Project_find rx docs f so skip lmt = Inr ps"
  shows "set ps \<subseteq> {p \<in> set docs. matches rx f p}"
proof -
  let ?s = "sort_key (\<lambda>p. of_int (snd so) * sort_value (fst so) p) (filter (matches rx f) docs)"
  from assms have "ps = drop (nat skip) ?s \<or> ps = take (nat lmt) (drop (nat skip) ?s)"
    by (auto simp add: Project_find_def Let_def split: if_splits)
  moreover have "set (drop (nat skip) ?s) \<subseteq> set ?s" by (rule set_drop_subset)
  moreover have "set (take (nat lmt) (drop (nat skip) ?s)) \<subseteq> set (drop (nat skip) ?s)"
    by (rule set_take_subset)
  ultimately have "set ps \<subseteq> set ?s" by auto
  then show ?thesis by auto
qed

lemma Project_find_sorted:
  assumes "Project_find rx docs f (S_createdAt, - 1) skip lmt = Inr ps"
  shows "sorted_wrt (\<lambda>a b. createdAt b \<le> createdAt a) ps"
proof -
  let ?k = "\<lambda>p. of_int (snd (S_createdAt, - 1 :: int)) * sort_value (fst (S_createdAt, - 1 :: int)) p"
  let ?s = "sort_key ?k (filter (matches rx f) docs)"
  have "sorted (map ?k ?s)" by (rule sorted_sort_key)
  then have "sorted_wrt (\<lambda>a b. ?k a \<le> ?k b) ?s" by (simp only: sorted_map)
  then have s: "sorted_wrt (\<lambda>a b. createdAt b \<le> createdAt a) ?s" by simp
  from assms have "ps = drop (nat skip) ?s \<or> ps = take (nat lmt) (drop (nat skip) ?s)"
    by (auto simp add: Project_find_def Let_def split: if_splits)
  then show ?thesis
    using s by (auto intro: sorted_wrt_drop sorted_wrt_take)
qed

lemma gates_ignore_sort:
  "basic_filters userPlan (q\<lparr>q_sortBy := a, q_sortOrder := b\<rparr>) = basic_filters userPlan q"
  "categories_gate userPlan (q\<lparr>q_sortBy := a, q_sortOrder := b\<rparr>) f =
     categories_gate userPlan q f"
  "roi_gate userPlan (q\<lparr>q_sortBy := a, q_sortOrder := b\<rparr>) f = roi_gate userPlan q f"
  "amount_gate userPlan (q\<lparr>q_sortBy := a, q_sortOrder := b\<rparr>) f = amount_gate userPlan q f"
  "duration_gate userPlan (q\<lparr>q_sortBy := a, q_sortOrder := b\<rparr>) f =
     duration_gate userPlan q f"
  by (simp_all add: basic_filters_def categories_gate_def roi_gate_def amount_gate_def
      duration_gate_def cong: if_cong option.case_cong)

lemma filter_ignores_sort:
  "advancedSearch_filter userPlan (q\<lparr>q_sortBy := a, q_sortOrder := b\<rparr>) =
   advancedSearch_filter userPlan q"
  by (simp add: advancedSearch_filter_def gates_ignore_sort)

lemma filter_forbidden_or_built:
  fixes plan :: PlanFeatures
  assumes acc: "\<And>f. hasFeatureAccess userPlan f = Inr (flag (searchFilters plan) f)"
  shows "(\<exists>m. advancedSearch_filter userPlan q = Inl (AppError [Lit m] 403)) \<or>
         (\<exists>f. advancedSearch_filter userPlan q = Inr f)"
proof (cases "(supplies q MultipleCategories \<longrightarrow> multipleCategories (searchFilters plan)) \<and>
     (supplies q RoiRange \<longrightarrow> roiRange (searchFilters plan)) \<and>
     (supplies q AmountRange \<longrightarrow> amountRange (searchFilters plan)) \<and>
     (supplies q DurationFilter \<longrightarrow> durationFilter (searchFilters plan))")
  case True
  then show ?thesis using advancedSearch_filter_gates(2) [OF acc, of q] by blast
next
  case False
  have "\<exists>m. advancedSearch_filter userPlan q = forbidden m"
    using False by (subst advancedSearch_filter_gates(1) [OF acc]) auto
  then show ?thesis by (simp add: forbidden_def)
qed

text \<open>
  Claim C7. For every request that the schema accepts: when its sort field or order differs
  from the default (\<open>createdAt\<close>, descending) and the caller's plan does not grant
  \<open>advancedSort\<close>, \<open>advancedSearch\<close> throws an AppError with status 403 (the one of the sort
  gate when the request supplies no gated filter). When the sort field is \<open>progress\<close> and
  the plan grants \<open>advancedSort\<close>, the request is accepted and its result is the result of
  the same request with the default sort: ordered by \<open>createdAt\<close>, descending.
\<close>

theorem sort_gate:
  assumes parse: "advancedSearchSchema_parse searchInput = Inr q"
  shows
   "((q_sortBy q \<noteq> S_createdAt \<or> q_sortOrder q \<noteq> Desc) \<and>
     hasFeatureAccess userPlan AdvancedSort = Inr False \<longrightarrow>
       (\<exists>m. ProjectService_advancedSearch rx docs searchInput userPlan =
              Inl (AppError [Lit m] 403)) \<and>
       ((\<forall>d. \<not> supplies q d) \<longrightarrow>
          ProjectService_advancedSearch rx docs searchInput userPlan =
            Inl (AppError [Lit ''Advanced sorting requires Premium plan''] 403))) \<and>
    (q_sortBy q = S_progress \<and> hasFeatureAccess userPlan AdvancedSort = Inr True \<longrightarrow>
       (\<exists>r. ProjectService_advancedSearch rx docs searchInput userPlan = Inr r \<and>
            ProjectService_advancedSearch rx docs
              (searchInput\<lparr>rs_sortBy := None, rs_sortOrder := None\<rparr>) userPlan = Inr r \<and>
            sorted_wrt (\<lambda>a b. createdAt b \<le> createdAt a) (projects r)))"
proof (intro conjI impI)
  assume a: "(q_sortBy q \<noteq> S_createdAt \<or> q_sortOrder q \<noteq> Desc) \<and>
     hasFeatureAccess userPlan AdvancedSort = Inr False"
  then have lack: "hasFeatureAccess userPlan AdvancedSort = Inr False" by simp
  from hasFeatureAccess_resolved [OF lack] obtain plan :: PlanFeatures
    where acc: "\<And>f. hasFeatureAccess userPlan f = Inr (flag (searchFilters plan) f)"
    by blast
  have sort: "advancedSearch_sort userPlan q =
                Inl (AppError [Lit ''Advanced sorting requires Premium plan''] 403)"
    using a by (auto simp add: advancedSearch_sort_def forbidden_def)
  from filter_forbidden_or_built [OF acc, of q]
  show "\<exists>m. ProjectService_advancedSearch rx docs searchInput userPlan =
              Inl (AppError [Lit m] 403)"
  proof
    assume "\<exists>m. advancedSearch_filter userPlan q = Inl (AppError [Lit m] 403)"
    then show ?thesis
      using parse by (auto simp add: ProjectService_advancedSearch_def)
  next
    assume "\<exists>f. advancedSearch_filter userPlan q = Inr f"
    then show ?thesis
      using parse sort by (auto simp add: ProjectService_advancedSearch_def Let_def)
  qed
  show "ProjectService_advancedSearch rx docs searchInput userPlan =
            Inl (AppError [Lit ''Advanced sorting requires Premium plan''] 403)"
    if none: "\<forall>d. \<not> supplies q d"
  proof -
    have "\<exists>f. advancedSearch_filter userPlan q = Inr f"
      using advancedSearch_filter_gates(2) [OF acc, of q] none by blast
    then show ?thesis
      using parse sort by (auto simp add: ProjectService_advancedSearch_def Let_def)
  qed
next
  assume b: "q_sortBy q = S_progress \<and> hasFeatureAccess userPlan AdvancedSort = Inr True"
  then have has: "hasFeatureAccess userPlan AdvancedSort = Inr True" by simp
  from hasFeatureAccess_resolved [OF has] obtain plan :: PlanFeatures
    where mem: "plan \<in> {free_plan, basic_plan, plus_plan, premium_plan}"
      and acc: "\<And>f. hasFeatureAccess userPlan f = Inr (flag (searchFilters plan) f)"
    by blast
  from has acc have "advancedSort (searchFilters plan)" by simp
  with mem have "plan = premium_plan"
    by (auto simp add: free_plan_def basic_plan_def plus_plan_def)
  then have flags: "multipleCategories (searchFilters plan)" "roiRange (searchFilters plan)"
    "amountRange (searchFilters plan)" "durationFilter (searchFilters plan)"
    by (simp_all add: premium_plan_def)
  from advancedSearch_filter_gates(2) [OF acc, of q] flags
  obtain f where f: "advancedSearch_filter userPlan q = Inr f" by blast
  let ?q' = "q\<lparr>q_sortBy := S_createdAt, q_sortOrder := Desc\<rparr>"
  have f': "advancedSearch_filter userPlan ?q' = Inr f"
    using f by (simp add: filter_ignores_sort)
  have parse': "advancedSearchSchema_parse (searchInput\<lparr>rs_sortBy := None, rs_sortOrder := None\<rparr>)
                  = Inr ?q'"
    using parse by (rule parse_default_sort)
  have so: "advancedSearch_sort userPlan q = Inr (S_createdAt, - 1)"
    using b by (simp add: advancedSearch_sort_def)
  have so': "advancedSearch_sort userPlan ?q' = Inr (S_createdAt, - 1)"
    by (simp add: advancedSearch_sort_def)
  have "0 \<le> (q_page q - 1) * q_limit q"
    using parse_page_limit [OF parse] by simp
  then obtain ps where ps: "Project_find rx docs f (S_createdAt, - 1)
      ((q_page q - 1) * q_limit q) (q_limit q) = Inr ps"
    by (simp add: Project_find_def Let_def)
  let ?r = "\<lparr> projects = ps,
             pagination = pagination_of (q_page q) (q_limit q) (Project_countDocuments rx docs f),
             planFeatures = getPlanFeatures userPlan \<rparr>"
  have "ProjectService_advancedSearch rx docs searchInput userPlan = Inr ?r"
    using parse f so ps by (simp add: ProjectService_advancedSearch_def Let_def)
  moreover have "ProjectService_advancedSearch rx docs
      (searchInput\<lparr>rs_sortBy := None, rs_sortOrder := None\<rparr>) userPlan = Inr ?r"
    using parse' f' so' ps by (simp add: ProjectService_advancedSearch_def Let_def)
  moreover have "sorted_wrt (\<lambda>a b. createdAt b \<le> createdAt a) (projects ?r)"
    using Project_find_sorted [OF ps] by simp
  ultimately show "\<exists>r. ProjectService_advancedSearch rx docs searchInput userPlan = Inr r \<and>
            ProjectService_advancedSearch rx docs
              (searchInput\<lparr>rs_sortBy := None, rs_sortOrder := None\<rparr>) userPlan = Inr r \<and>
            sorted_wrt (\<lambda>a b. createdAt b \<le> createdAt a) (projects r)"
    by blast
qed


subsection \<open>Examples of requests\<close>

lemma parse_empty_search:
  "advancedSearchSchema_parse (empty_search\<lparr>rs_minROI := Some 10\<rparr>) =
     Inr (default_search\<lparr>q_minROI := Some 10\<rparr>)"
  "advancedSearchSchema_parse (empty_search\<lparr>rs_sortBy := Some ''roiPercent''\<rparr>) =
     Inr (default_search\<lparr>q_sortBy := S_roiPercent\<rparr>)"
  "advancedSearchSchema_parse
     (empty_search\<lparr>rs_sortBy := Some ''progress'', rs_sortOrder := Some ''asc''\<rparr>) =
     Inr (default_search\<lparr>q_sortBy := S_progress, q_sortOrder := Asc\<rparr>)"
  by (simp_all add: advancedSearchSchema_parse_def empty_search_def default_search_def)

lemma plan_flags:
  "hasFeatureAccess ''free'' RoiRange = Inr False"
  "hasFeatureAccess ''plus'' AdvancedSort = Inr False"
  "hasFeatureAccess ''premium'' AdvancedSort = Inr True"
  by (simp_all add: hasFeatureAccess_def index_PLAN_FEATURES_def PLAN_FEATURES_def
      free_plan_def plus_plan_def premium_plan_def)

text \<open>A lower bound of 10 on the return, from a caller on the free plan.\<close>

theorem gated_filter_forbidden_witness:
  "advancedSearchSchema_parse (empty_search\<lparr>rs_minROI := Some 10\<rparr>) =
     Inr (default_search\<lparr>q_minROI := Some 10\<rparr>) \<and>
   supplies (default_search\<lparr>q_minROI := Some 10\<rparr>) RoiRange \<and>
   hasFeatureAccess ''free'' RoiRange = Inr False \<and>
   ProjectService_advancedSearch no_match example_docs
     (empty_search\<lparr>rs_minROI := Some 10\<rparr>) ''free'' =
     Inl (AppError [Lit ''ROI range filter requires Basic plan or higher''] 403) \<and>
   minimum_plan_name RoiRange = ''Basic''"
proof -
  have s: "supplies (default_search\<lparr>q_minROI := Some 10\<rparr>) RoiRange" by simp
  have r: "ProjectService_advancedSearch no_match example_docs
     (empty_search\<lparr>rs_minROI := Some 10\<rparr>) ''free'' =
     Inl (AppError [Lit ''ROI range filter requires Basic plan or higher''] 403)"
    by (simp add: ProjectService_advancedSearch_def parse_empty_search(1)
        advancedSearch_filter_def basic_filters_def categories_gate_def roi_gate_def
        default_search_def plan_flags(1) forbidden_def)
  show ?thesis
    using gated_filter_forbidden [OF parse_empty_search(1) s plan_flags(1),
        of no_match example_docs]
      parse_empty_search(1) s plan_flags(1) r minimum_plan_names(2)
    by blast
qed

lemma example_searches:
  "ProjectService_advancedSearch no_match example_docs
     (empty_search\<lparr>rs_sortBy := Some ''roiPercent''\<rparr>) ''plus'' =
     Inl (AppError [Lit ''Advanced sorting requires Premium plan''] 403)"
  "\<exists>r. ProjectService_advancedSearch no_match example_docs
         (empty_search\<lparr>rs_sortBy := Some ''progress'', rs_sortOrder := Some ''asc''\<rparr>)
         ''premium'' = Inr r \<and>
       map title (projects r) = [''Biogas plant'', ''Harbour wind park'', ''Solar farm'']"
  by (simp_all add: ProjectService_advancedSearch_def parse_empty_search
      advancedSearch_filter_def basic_filters_def categories_gate_def roi_gate_def
      amount_gate_def duration_gate_def advancedSearch_sort_def
      default_search_def plan_flags forbidden_def Project_find_def Let_def matches_def
      no_filter_def example_docs_def example_project_def premium_project_def
      biogas_project_def)

text \<open>
  A sort by \<open>roiPercent\<close> from a caller on the plus plan; a sort by \<open>progress\<close>, ascending,
  from a caller on the premium plan, answered newest first.
\<close>

theorem sort_gate_witness:
  "ProjectService_advancedSearch no_match example_docs
     (empty_search\<lparr>rs_sortBy := Some ''roiPercent''\<rparr>) ''plus'' =
     Inl (AppError [Lit ''Advanced sorting requires Premium plan''] 403) \<and>
   (\<exists>r. ProjectService_advancedSearch no_match example_docs
          (empty_search\<lparr>rs_sortBy := Some ''progress'', rs_sortOrder := Some ''asc''\<rparr>)
          ''premium'' = Inr r \<and>
        map title (projects r) = [''Biogas plant'', ''Harbour wind park'', ''Solar farm''])"
  using sort_gate [OF parse_empty_search(2), of "''plus''" no_match example_docs]
    sort_gate [OF parse_empty_search(3), of "''premium''" no_match example_docs]
    example_searches
  by blast

subsection \<open>The default and the premium listing\<close>

lemma query_filter_isPremium:
  "f_isPremium (query_filter start query) = f_isPremium start"
  by (simp add: query_filter_def Let_def split: option.splits)

lemma list_projects_members:
  assumes "list_projects rx docs f query = Inr r" and "p \<in> set (projects r)"
  shows "p \<in> set docs" and "matches rx f p"
proof -
  from assms(1) obtain ps where
    ps: "Project_find rx docs f (S_createdAt, - 1)
           ((pq_page query - 1) * pq_limit query) (pq_limit query) = Inr ps"
    and r: "projects r = ps"
    unfolding list_projects_def Let_def by (elim bind_res_InrE) auto
  from Project_find_subset [OF ps] assms(2) r
  show "p \<in> set docs" and "matches rx f p" by auto
qed

lemma getAllProjects_no_premium:
  assumes "ProjectService_getAllProjects rx docs query = Inr r" and "p \<in> set (projects r)"
  shows "\<not> isPremium p"
proof -
  have "matches rx (query_filter (no_filter\<lparr>f_isPremium := Some (PremiumNot True)\<rparr>) query) p"
    using assms list_projects_members(2) by (simp add: ProjectService_getAllProjects_def)
  then show ?thesis
    by (simp add: matches_def query_filter_isPremium)
qed

lemma getPremiumProjects_only_premium:
  assumes "ProjectService_getPremiumProjects rx docs query = Inr r" and "p \<in> set (projects r)"
  shows "isPremium p"
proof -
  have "matches rx (query_filter (no_filter\<lparr>f_isPremium := Some (PremiumIs True)\<rparr>) query) p"
    using assms list_projects_members(2) by (simp add: ProjectService_getPremiumProjects_def)
  then show ?thesis
    by (simp add: matches_def query_filter_isPremium)
qed

text \<open>
  Claim C9. No project of a result of \<open>getAllProjects\<close> is flagged \<open>isPremium\<close>, in the
  service and in the controller. The controller of the premium listing answers 403 to every
  caller whose plan is not \<^verbatim>\<open>'premium'\<close>, and every project of a result it returns is flagged
  \<open>isPremium\<close>.
\<close>

theorem premium_listing_split:
  "(\<forall>q r. ProjectService_getAllProjects rx docs q = Inr r \<longrightarrow>
      (\<forall>p \<in> set (projects r). \<not> isPremium p)) \<and>
   (\<forall>c r. ProjectController_getAllProjects rx docs query = Reply c r \<longrightarrow>
      (\<forall>p \<in> set (projects r). \<not> isPremium p)) \<and>
   (plan_of_request planKey \<noteq> ''premium'' \<longrightarrow>
      ProjectController_getPremiumProjects rx docs planKey query =
        Refuse 403 [Lit ''Premium plan required to access premium projects'']) \<and>
   (\<forall>c r. ProjectController_getPremiumProjects rx docs planKey query = Reply c r \<longrightarrow>
      plan_of_request planKey = ''premium'' \<and> (\<forall>p \<in> set (projects r). isPremium p))"
proof (intro conjI allI impI ballI)
  fix q r p
  assume "ProjectService_getAllProjects rx docs q = Inr r" and "p \<in> set (projects r)"
  then show "\<not> isPremium p" by (rule getAllProjects_no_premium)
next
  fix c r p
  assume a: "ProjectController_getAllProjects rx docs query = Reply c r"
    and p: "p \<in> set (projects r)"
  from a obtain q where "ProjectService_getAllProjects rx docs q = Inr r"
    by (auto simp add: ProjectController_getAllProjects_def bind_res_Inr split: sum.splits)
  then show "\<not> isPremium p" using p by (rule getAllProjects_no_premium)
next
  assume "plan_of_request planKey \<noteq> ''premium''"
  then show "ProjectController_getPremiumProjects rx docs planKey query =
        Refuse 403 [Lit ''Premium plan required to access premium projects'']"
    by (simp add: ProjectController_getPremiumProjects_def)
next
  fix c r
  assume "ProjectController_getPremiumProjects rx docs planKey query = Reply c r"
  then show "plan_of_request planKey = ''premium''"
    by (auto simp add: ProjectController_getPremiumProjects_def split: if_splits)
next
  fix c r p
  assume a: "ProjectController_getPremiumProjects rx docs planKey query = Reply c r"
    and p: "p \<in> set (projects r)"
  from a obtain q where "ProjectService_getPremiumProjects rx docs q = Inr r"
    by (auto simp add: ProjectController_getPremiumProjects_def bind_res_Inr
        split: if_splits sum.splits)
  then show "isPremium p" using p by (rule getPremiumProjects_only_premium)
qed

lemma parse_empty_query:
  "projectQuerySchema_parse empty_query =
     Inr \<lparr> pq_page = 1, pq_limit = 10, pq_category = None, pq_status = None,
           pq_minROI = None, pq_maxROI = None, pq_search = None \<rparr>"
  by (simp add: projectQuerySchema_parse_def empty_query_def)

lemma example_listings:
  "\<exists>r. ProjectController_getAllProjects no_match example_docs empty_query = Reply 200 r \<and>
       map title (projects r) = [''Biogas plant'', ''Solar farm'']"
  "\<exists>r. ProjectController_getPremiumProjects no_match example_docs (Some ''premium'')
         empty_query = Reply 200 r \<and>
       map title (projects r) = [''Harbour wind park'']"
  by (simp_all add: ProjectController_getAllProjects_def ProjectController_getPremiumProjects_def
      parse_empty_query ProjectService_getAllProjects_def ProjectService_getPremiumProjects_def
      list_projects_def query_filter_def Let_def Project_find_def matches_def no_filter_def
      example_docs_def example_project_def premium_project_def biogas_project_def)

text \<open>
  The default listing leaves the premium project out; the premium listing refuses a caller
  on the plus plan and returns the premium project alone to a caller on the premium plan.
\<close>

theorem premium_listing_split_witness:
  "(\<exists>r. ProjectController_getAllProjects no_match example_docs empty_query = Reply 200 r \<and>
        map title (projects r) = [''Biogas plant'', ''Solar farm'']) \<and>
   ProjectController_getPremiumProjects no_match example_docs (Some ''plus'') empty_query =
     Refuse 403 [Lit ''Premium plan required to access premium projects''] \<and>
   (\<exists>r. ProjectController_getPremiumProjects no_match example_docs (Some ''premium'')
          empty_query = Reply 200 r \<and>
        map title (projects r) = [''Harbour wind park''])"
  using premium_listing_split [of no_match example_docs empty_query "Some ''plus''"]
    example_listings
  by simp

end
